theory Spec2Isabelle
  imports Main
begin

section \<open>BrandBlast 2.0: the campaign wizard of \<^verbatim>\<open>index.tsx\<close>\<close>

text \<open>
  The component \<^verbatim>\<open>App\<close> keeps thirteen pieces of React state and three asynchronous
  handlers (\<^verbatim>\<open>getMarketingAngles\<close>, \<^verbatim>\<open>generateCampaignAssets\<close>,
  \<^verbatim>\<open>generateBannerVariation\<close>). Each handler runs synchronously up to its
  \<^verbatim>\<open>await\<close>, where the requests leave for the service, and resumes when the service has
  answered. A handler is therefore modelled by two functions: \<open>_begin\<close>, from the state at the
  click to the state at the \<^verbatim>\<open>await\<close> together with the requests dispatched, and
  \<open>_settle\<close>, from the answer and the state on arrival to the state after the
  \<^verbatim>\<open>finally\<close> block. The continuation of every handler only writes state, so
  \<open>_settle\<close> takes whatever state is current when the answer arrives.
\<close>

subsection \<open>State interfaces\<close>

record MarketingAngle =
  title :: string
  description :: string

text \<open>
  The values a text sub-call can hand over. \<^verbatim>\<open>text\<close> is declared
  \<^verbatim>\<open>string | string[]\<close>, but what is stored is \<^verbatim>\<open>result.text\<close>, which is
  \<^verbatim>\<open>undefined\<close> when the response has no text, or the value of \<^verbatim>\<open>JSON.parse\<close>,
  which is any JSON value; nothing checks it against the declared type.
\<close>

datatype JsValue =
    JUndefined
  | JNull
  | JBool bool
  | JNumber int
  | JString string
  | JArray "JsValue list"
  | JObject "(string \<times> JsValue) list"

text \<open>
  The fields of \<^verbatim>\<open>CampaignAsset\<close> are \<^verbatim>\<open>title\<close>, \<^verbatim>\<open>image\<close> and
  \<^verbatim>\<open>text\<close>; they carry the prefix \<open>asset_\<close> here.
\<close>

record CampaignAsset =
  asset_title :: string
  asset_image :: string
  asset_text :: JsValue

record AppState =
  productPhoto :: "string option"
  productName :: string
  targetAudience :: string
  desiredVibe :: string
  marketingAngles :: "MarketingAngle list"
  selectedAngle :: "MarketingAngle option"
  campaignAssets :: "CampaignAsset list"
  bannerVariationPrompt :: string
  editedBanner :: "string option"
  isLoading :: bool
  loadingMessage :: string
  currentStep :: nat
  error :: "string option"

text \<open>The arguments of the \<^verbatim>\<open>useState\<close> calls.\<close>

definition initialState :: AppState where
  "initialState =
     \<lparr>productPhoto = None, productName = [], targetAudience = [], desiredVibe = [],
      marketingAngles = [], selectedAngle = None, campaignAssets = [],
      bannerVariationPrompt = [], editedBanner = None,
      isLoading = False, loadingMessage = [], currentStep = 1, error = None\<rparr>"

text \<open>
  JavaScript truthiness: a string is truthy when it is not empty; a
  \<^verbatim>\<open>string | null\<close> (also \<^verbatim>\<open>undefined\<close>) when it is there and not empty.
\<close>

definition truthy :: "string \<Rightarrow> bool" where
  "truthy s = (s \<noteq> [])"

definition present :: "string option \<Rightarrow> bool" where
  "present p = (case p of None \<Rightarrow> False | Some s \<Rightarrow> truthy s)"

subsection \<open>The service\<close>

text \<open>
  A call of \<^verbatim>\<open>ai.models.generateContent\<close> is a promise: it rejects, or it resolves with a
  response. The service is not part of the program, so its answers are inputs of the model.
\<close>

datatype 'a Reply = Rejected | Resolved 'a

text \<open>
  A text response: its \<^verbatim>\<open>text\<close> (\<open>None\<close> when it is \<^verbatim>\<open>undefined\<close>), and
  what \<^verbatim>\<open>JSON.parse\<close> makes of that text (\<open>None\<close> when it throws). For the six
  calls of a campaign the parsed value is any JSON value. For the angles it is taken to have
  the shape of the \<^verbatim>\<open>responseSchema\<close> the request declares, a list of objects with a
  title and a description, which the page needs to render the cards; the schema fixes neither
  the number of items nor that a string is not empty.
\<close>

record 'a TextResponse =
  responseText :: "string option"
  parsed :: "'a option"

text \<open>
  An image response is read through \<^verbatim>\<open>response.candidates[0].content.parts\<close>:
  \<open>None\<close> when that path is not there (reading it throws), else the ordered parts. A part
  may have \<^verbatim>\<open>inlineData\<close>, whose \<^verbatim>\<open>data\<close> may be undefined.
\<close>

record Blob =
  data :: "string option"
  mimeType :: "string option"

record Part =
  inlineData :: "Blob option"

type_synonym ImageReply = "Part list option Reply"

datatype Schema = FreeText | StringArray | AngleArray

text \<open>
  What is sent: a text request (prompt and response schema, model \<^verbatim>\<open>gemini-2.5-flash\<close>)
  or an image request (the reference images as the data URLs they are cut from, and the prompt,
  model \<^verbatim>\<open>gemini-2.5-flash-image-preview\<close>).
\<close>

datatype Request = TextRequest string Schema | ImageRequest "string list" string

datatype Failure = ServiceError | SchemaParseError | UnreadableResponse
  | NoImageReturned | PhotoMissing

subsection \<open>Prompts\<close>

definition anglesPrompt :: "AppState \<Rightarrow> string" where
  \<open>anglesPrompt s =
     ''For a product named "'' @ productName s @ ''" targeting "'' @ targetAudience s
     @ ''" with a desired vibe of "'' @ desiredVibe s
     @ ''", suggest 3 distinct marketing campaign angles. For each angle, provide a short, catchy title and a one-sentence description.''\<close>

text \<open>An apostrophe that ends a piece of a template is written as the character.\<close>

definition apos :: string where
  "apos = [CHR 0x27]"

definition instagramImagePrompt :: "AppState \<Rightarrow> MarketingAngle \<Rightarrow> string" where
  "instagramImagePrompt s a =
     ''A high-quality, photorealistic lifestyle photo for Instagram. The uploaded product shot is seamlessly integrated into a scene with a ''
     @ apos @ desiredVibe s @ ''' vibe. The scene reflects the marketing angle: ''
     @ apos @ title a @ '''. The target audience is '' @ targetAudience s @ ''.''"

definition instagramTextPrompt :: "AppState \<Rightarrow> MarketingAngle \<Rightarrow> string" where
  "instagramTextPrompt s a =
     ''Based on the campaign angle '' @ apos @ title a
     @ ''', write an engaging Instagram caption for the product '' @ productName s
     @ ''. Include 3 relevant hashtags and a call-to-action.''"

definition facebookImagePrompt :: "AppState \<Rightarrow> MarketingAngle \<Rightarrow> string" where
  "facebookImagePrompt s a =
     ''A photorealistic Facebook ad image. It features the uploaded product in a social scene with people who match the description of ''
     @ apos @ targetAudience s @ '''. The overall vibe is '' @ apos @ desiredVibe s
     @ ''' and aligns with the marketing angle: '' @ apos @ title a @ '''.''"

definition facebookTextPrompt :: "AppState \<Rightarrow> MarketingAngle \<Rightarrow> string" where
  "facebookTextPrompt s a =
     ''Write a short, persuasive copy for a Facebook ad for '' @ productName s
     @ ''. The ad should highlight the benefits based on our campaign angle: ''
     @ apos @ title a @ '''. Start with a compelling hook.''"

definition bannerImagePrompt :: "AppState \<Rightarrow> string" where
  "bannerImagePrompt s =
     ''A graphic web banner. Isolate the uploaded product on a stylized background that matches a ''
     @ apos @ desiredVibe s @ ''' style. Add the text '' @ apos @ productName s
     @ ''' directly onto the banner in a visually appealing and clear way.''"

definition bannerTextPrompt :: "AppState \<Rightarrow> MarketingAngle \<Rightarrow> string" where
  "bannerTextPrompt s a =
     ''Generate 3 short and punchy headline variations for a web banner about ''
     @ productName s @ '', inspired by the angle: '' @ apos @ title a @ '''.''"

subsection \<open>Step 1 to 2: \<^verbatim>\<open>getMarketingAngles\<close>\<close>

text \<open>The guard, the seven writes before \<^verbatim>\<open>try\<close>, and the request.\<close>

definition getMarketingAngles_begin :: "AppState \<Rightarrow> AppState \<times> Request list" where
  "getMarketingAngles_begin s =
     (if \<not> truthy (productName s) \<or> \<not> truthy (targetAudience s) \<or> \<not> truthy (desiredVibe s)
      then (s, [])
      else (s\<lparr>isLoading := True,
               loadingMessage := ''Brainstorming strategic angles...'',
               error := None,
               marketingAngles := [],
               selectedAngle := None,
               campaignAssets := [],
               editedBanner := None\<rparr>,
            [TextRequest (anglesPrompt s) AngleArray]))"

text \<open>
  After the \<^verbatim>\<open>await\<close>: a rejection and a text that \<^verbatim>\<open>JSON.parse\<close> refuses both
  land in \<^verbatim>\<open>catch\<close>; otherwise the parsed value is stored as it is.
  \<^verbatim>\<open>finally\<close> clears the busy flag.
\<close>

definition getMarketingAngles_settle ::
  "MarketingAngle list TextResponse Reply \<Rightarrow> AppState \<Rightarrow> AppState" where
  "getMarketingAngles_settle reply s =
     (case (case reply of Rejected \<Rightarrow> Inl ServiceError
            | Resolved response \<Rightarrow>
                (case parsed response of None \<Rightarrow> Inl SchemaParseError
                 | Some angles \<Rightarrow> Inr angles)) of
        Inr angles \<Rightarrow> s\<lparr>marketingAngles := angles, currentStep := 2\<rparr>
      | Inl e \<Rightarrow> s\<lparr>error := Some ''Failed to suggest angles. Please try again.''\<rparr>)
     \<lparr>isLoading := False\<rparr>"

text \<open>The handler run to its end with nothing happening in between.\<close>

definition getMarketingAngles ::
  "AppState \<Rightarrow> MarketingAngle list TextResponse Reply \<Rightarrow> AppState" where
  "getMarketingAngles s reply =
     (case getMarketingAngles_begin s of
        (s1, requests) \<Rightarrow> if requests = [] then s1 else getMarketingAngles_settle reply s1)"

subsection \<open>Reading the image out of a response\<close>

text \<open>
  The loop over the parts stops at the first part that has \<^verbatim>\<open>inlineData\<close> and takes
  its \<^verbatim>\<open>data\<close>, whatever that is; \<open>None\<close> is \<^verbatim>\<open>null\<close> (no such part) or
  \<^verbatim>\<open>undefined\<close> (a part with no data). The same loop stands in
  \<^verbatim>\<open>generateImage\<close> and in \<^verbatim>\<open>generateBannerVariation\<close>.
\<close>

fun newImageBase64 :: "Part list \<Rightarrow> string option" where
  "newImageBase64 [] = None"
| "newImageBase64 (part # parts) =
     (case inlineData part of Some blob \<Rightarrow> data blob | None \<Rightarrow> newImageBase64 parts)"

definition dataUrl :: "string \<Rightarrow> string" where
  "dataUrl b = ''data:image/png;base64,'' @ b"

subsection \<open>Step 2 to 3: \<^verbatim>\<open>generateCampaignAssets\<close>\<close>

text \<open>\<^verbatim>\<open>result.text\<close> as a value: the string, or \<^verbatim>\<open>undefined\<close>.\<close>

definition textValue :: "string option \<Rightarrow> JsValue" where
  "textValue t = (case t of None \<Rightarrow> JUndefined | Some str \<Rightarrow> JString str)"

text \<open>
  \<^verbatim>\<open>generateText\<close>: with \<^verbatim>\<open>expectJson\<close> the text goes through
  \<^verbatim>\<open>JSON.parse\<close> and the value is returned, whatever it is; else the text is returned
  as it is.
\<close>

definition generateText ::
  "bool \<Rightarrow> JsValue TextResponse Reply \<Rightarrow> Failure + JsValue" where
  "generateText expectJson reply =
     (case reply of Rejected \<Rightarrow> Inl ServiceError
      | Resolved result \<Rightarrow>
          if expectJson
          then (case parsed result of None \<Rightarrow> Inl SchemaParseError
                | Some v \<Rightarrow> Inr v)
          else Inr (textValue (responseText result)))"

text \<open>
  \<^verbatim>\<open>generateImage\<close>: throws before any request when the photo captured by the handler is
  missing, when the service rejects, when the parts cannot be read, and when the loop found
  nothing truthy.
\<close>

definition generateImage :: "string option \<Rightarrow> ImageReply \<Rightarrow> Failure + string" where
  "generateImage photo reply =
     (if \<not> present photo then Inl PhotoMissing
      else case reply of Rejected \<Rightarrow> Inl ServiceError
        | Resolved None \<Rightarrow> Inl UnreadableResponse
        | Resolved (Some parts) \<Rightarrow>
            (case newImageBase64 parts of None \<Rightarrow> Inl NoImageReturned
             | Some b \<Rightarrow> if truthy b then Inr (dataUrl b) else Inl NoImageReturned))"

definition generateImage_request :: "string option \<Rightarrow> string \<Rightarrow> Request list" where
  "generateImage_request photo prompt =
     (case photo of None \<Rightarrow> []
      | Some url \<Rightarrow> if truthy url then [ImageRequest [url] prompt] else [])"

text \<open>The answers to the six calls, in the order of the array given to \<^verbatim>\<open>Promise.all\<close>.\<close>

record CampaignReplies =
  instagramImageReply :: ImageReply
  instagramTextReply :: "JsValue TextResponse Reply"
  facebookImageReply :: ImageReply
  facebookTextReply :: "JsValue TextResponse Reply"
  bannerImageReply :: ImageReply
  bannerTextReply :: "JsValue TextResponse Reply"

text \<open>
  \<^verbatim>\<open>Promise.all\<close> of six promises: the six values in order when all are fulfilled, a
  rejection when one is not. Which reason it rejects with depends on the order of arrival; the
  handler only logs it.
\<close>

fun promiseAll ::
  "Failure + string \<Rightarrow> Failure + JsValue \<Rightarrow> Failure + string \<Rightarrow> Failure + JsValue
   \<Rightarrow> Failure + string \<Rightarrow> Failure + JsValue
   \<Rightarrow> (string \<times> JsValue \<times> string \<times> JsValue \<times> string \<times> JsValue) option" where
  "promiseAll (Inr a) (Inr b) (Inr c) (Inr d) (Inr e) (Inr f) = Some (a, b, c, d, e, f)"
| "promiseAll _ _ _ _ _ _ = None"

definition generateCampaignAssets_begin :: "AppState \<Rightarrow> AppState \<times> Request list" where
  "generateCampaignAssets_begin s =
     (case selectedAngle s of None \<Rightarrow> (s, [])
      | Some angle \<Rightarrow>
          if \<not> truthy (productName s) \<or> \<not> present (productPhoto s) then (s, [])
          else (s\<lparr>isLoading := True,
                   loadingMessage := ''Generating your full campaign assets...'',
                   error := None,
                   campaignAssets := [],
                   editedBanner := None\<rparr>,
                generateImage_request (productPhoto s) (instagramImagePrompt s angle)
                @ [TextRequest (instagramTextPrompt s angle) FreeText]
                @ generateImage_request (productPhoto s) (facebookImagePrompt s angle)
                @ [TextRequest (facebookTextPrompt s angle) FreeText]
                @ generateImage_request (productPhoto s) (bannerImagePrompt s)
                @ [TextRequest (bannerTextPrompt s angle) StringArray]))"

text \<open>The first argument is the photo the handler had captured when it was called.\<close>

definition generateCampaignAssets_settle ::
  "string option \<Rightarrow> CampaignReplies \<Rightarrow> AppState \<Rightarrow> AppState" where
  "generateCampaignAssets_settle photo r s =
     (case promiseAll
             (generateImage photo (instagramImageReply r))
             (generateText False (instagramTextReply r))
             (generateImage photo (facebookImageReply r))
             (generateText False (facebookTextReply r))
             (generateImage photo (bannerImageReply r))
             (generateText True (bannerTextReply r)) of
        Some (instagramImage, instagramText, facebookImage, facebookText,
              bannerImage, bannerText) \<Rightarrow>
          s\<lparr>campaignAssets :=
              [\<lparr>asset_title = ''Instagram Lifestyle Post'',
                asset_image = instagramImage, asset_text = instagramText\<rparr>,
               \<lparr>asset_title = ''Facebook Ad (Focus on People)'',
                asset_image = facebookImage, asset_text = facebookText\<rparr>,
               \<lparr>asset_title = ''Web Banner (Graphic & Direct)'',
                asset_image = bannerImage, asset_text = bannerText\<rparr>],
            currentStep := 3\<rparr>
      | None \<Rightarrow> s\<lparr>error := Some ''Failed to generate the campaign. Please try again.''\<rparr>)
     \<lparr>isLoading := False\<rparr>"

definition generateCampaignAssets :: "AppState \<Rightarrow> CampaignReplies \<Rightarrow> AppState" where
  "generateCampaignAssets s r =
     (case generateCampaignAssets_begin s of
        (s1, requests) \<Rightarrow>
          if requests = [] then s1 else generateCampaignAssets_settle (productPhoto s) r s1)"

subsection \<open>Step 4: \<^verbatim>\<open>generateBannerVariation\<close>\<close>

text \<open>\<^verbatim>\<open>String.prototype.includes\<close>, as a search for the pattern at every position.\<close>

fun startsWith :: "string \<Rightarrow> string \<Rightarrow> bool" where
  "startsWith _ [] = True"
| "startsWith [] (_ # _) = False"
| "startsWith (c # cs) (p # ps) = (c = p \<and> startsWith cs ps)"

fun includesStr :: "string \<Rightarrow> string \<Rightarrow> bool" where
  "includesStr [] pat = startsWith [] pat"
| "includesStr (c # cs) pat = (startsWith (c # cs) pat \<or> includesStr cs pat)"

definition isWebBanner :: "CampaignAsset \<Rightarrow> bool" where
  "isWebBanner a = includesStr (asset_title a) ''Web Banner''"

definition originalBanner :: "AppState \<Rightarrow> CampaignAsset option" where
  "originalBanner s = List.find isWebBanner (campaignAssets s)"

definition generateBannerVariation_begin :: "AppState \<Rightarrow> AppState \<times> Request list" where
  "generateBannerVariation_begin s =
     (if \<not> truthy (bannerVariationPrompt s) then (s, [])
      else case originalBanner s of
        None \<Rightarrow>
          (s\<lparr>error := Some ''Original banner not found. Please generate a campaign first.''\<rparr>, [])
      | Some banner \<Rightarrow>
          (case productPhoto s of
             None \<Rightarrow>
               (s\<lparr>error := Some ''Original product photo not found. Please ensure it is still loaded in Step 1.''\<rparr>, [])
           | Some photo \<Rightarrow>
               if \<not> truthy photo
               then (s\<lparr>error := Some ''Original product photo not found. Please ensure it is still loaded in Step 1.''\<rparr>, [])
               else (s\<lparr>isLoading := True,
                        loadingMessage := ''Generating variation...'',
                        error := None,
                        editedBanner := None\<rparr>,
                     [ImageRequest [photo, asset_image banner] (bannerVariationPrompt s)])))"

text \<open>
  After the \<^verbatim>\<open>await\<close>: a rejection and unreadable parts land in \<^verbatim>\<open>catch\<close>; a
  response whose loop found nothing truthy sets the other message without throwing.
\<close>

definition generateBannerVariation_settle :: "ImageReply \<Rightarrow> AppState \<Rightarrow> AppState" where
  "generateBannerVariation_settle reply s =
     (case reply of
        Rejected \<Rightarrow>
          s\<lparr>error := Some ''Failed to generate banner variation. Please try again.''\<rparr>
      | Resolved None \<Rightarrow>
          s\<lparr>error := Some ''Failed to generate banner variation. Please try again.''\<rparr>
      | Resolved (Some parts) \<Rightarrow>
          (case newImageBase64 parts of
             None \<Rightarrow>
               s\<lparr>error := Some ''The model did not return an edited image. Please try a different prompt.''\<rparr>
           | Some b \<Rightarrow>
               if truthy b then s\<lparr>editedBanner := Some (dataUrl b)\<rparr>
               else s\<lparr>error := Some ''The model did not return an edited image. Please try a different prompt.''\<rparr>))
     \<lparr>isLoading := False\<rparr>"

definition generateBannerVariation :: "AppState \<Rightarrow> ImageReply \<Rightarrow> AppState" where
  "generateBannerVariation s reply =
     (case generateBannerVariation_begin s of
        (s1, requests) \<Rightarrow>
          if requests = [] then s1 else generateBannerVariation_settle reply s1)"

subsection \<open>What is rendered, and when a button is disabled\<close>

definition isStep1Complete :: "AppState \<Rightarrow> bool" where
  "isStep1Complete s =
     (present (productPhoto s) \<and> truthy (productName s) \<and> truthy (targetAudience s)
      \<and> truthy (desiredVibe s))"

text \<open>The button of step 1 is always rendered.\<close>

definition suggestDisabled :: "AppState \<Rightarrow> bool" where
  "suggestDisabled s = (\<not> isStep1Complete s \<or> (isLoading s \<and> currentStep s = 1))"

text \<open>The angle cards: \<^verbatim>\<open>currentStep >= 2\<close>, one card for each stored angle.\<close>

definition step2Rendered :: "AppState \<Rightarrow> bool" where
  "step2Rendered s = (currentStep s \<ge> 2)"

definition generateRendered :: "AppState \<Rightarrow> bool" where
  "generateRendered s = (step2Rendered s \<and> length (marketingAngles s) > 0)"

definition generateDisabled :: "AppState \<Rightarrow> bool" where
  "generateDisabled s = (selectedAngle s = None \<or> (isLoading s \<and> currentStep s = 2))"

text \<open>Steps 3 and 4 are rendered together; the textarea and the button of step 4 are there.\<close>

definition step3Rendered :: "AppState \<Rightarrow> bool" where
  "step3Rendered s = (currentStep s = 3 \<and> length (campaignAssets s) > 0)"

definition variationDisabled :: "AppState \<Rightarrow> bool" where
  "variationDisabled s = (\<not> truthy (bannerVariationPrompt s) \<or> isLoading s)"

subsection \<open>Sessions: user events and answers of the service, one at a time\<close>

text \<open>
  A call in flight is a handler suspended at its \<^verbatim>\<open>await\<close>. The campaign handler keeps
  the photo it captured, which \<^verbatim>\<open>generateImage\<close> tests.
\<close>

datatype Pending = AnglesCall | CampaignCall "string option" | VariationCall

record Session =
  app :: AppState
  inFlight :: "Pending list"
  sent :: "Request list"

definition initialSession :: Session where
  "initialSession = \<lparr>app = initialState, inFlight = [], sent = []\<rparr>"

text \<open>
  \<open>PhotoLoaded\<close> is \<^verbatim>\<open>onloadend\<close> of the file reader, whose result is
  \<^verbatim>\<open>null\<close> when the read failed. \<open>AngleClicked i\<close> is a click on the card of index
  \<open>i\<close>. The last three events are the service answering a call in flight.
\<close>

datatype Event =
    PhotoLoaded "string option"
  | NameTyped string
  | AudienceTyped string
  | VibeTyped string
  | PromptTyped string
  | SuggestClicked
  | AngleClicked nat
  | GenerateClicked
  | VariationClicked
  | AnglesAnswered "MarketingAngle list TextResponse Reply"
  | CampaignAnswered CampaignReplies
  | VariationAnswered ImageReply

definition startCall :: "Session \<Rightarrow> Pending \<Rightarrow> AppState \<times> Request list \<Rightarrow> Session" where
  "startCall c p r =
     (case r of (s, requests) \<Rightarrow>
        c\<lparr>app := s,
          inFlight := (if requests = [] then inFlight c else inFlight c @ [p]),
          sent := sent c @ requests\<rparr>)"

fun capturedPhoto :: "Pending list \<Rightarrow> string option option" where
  "capturedPhoto [] = None"
| "capturedPhoto (CampaignCall photo # ps) = Some photo"
| "capturedPhoto (_ # ps) = capturedPhoto ps"

text \<open>An event that the page does not offer in the current state changes nothing.\<close>

fun step :: "Session \<Rightarrow> Event \<Rightarrow> Session" where
  "step c (PhotoLoaded p) = c\<lparr>app := (app c)\<lparr>productPhoto := p\<rparr>\<rparr>"
| "step c (NameTyped v) = c\<lparr>app := (app c)\<lparr>productName := v\<rparr>\<rparr>"
| "step c (AudienceTyped v) = c\<lparr>app := (app c)\<lparr>targetAudience := v\<rparr>\<rparr>"
| "step c (VibeTyped v) = c\<lparr>app := (app c)\<lparr>desiredVibe := v\<rparr>\<rparr>"
| "step c (PromptTyped v) =
     (if step3Rendered (app c) then c\<lparr>app := (app c)\<lparr>bannerVariationPrompt := v\<rparr>\<rparr> else c)"
| "step c SuggestClicked =
     (if suggestDisabled (app c) then c
      else startCall c AnglesCall (getMarketingAngles_begin (app c)))"
| "step c (AngleClicked i) =
     (if step2Rendered (app c) \<and> i < length (marketingAngles (app c))
      then c\<lparr>app := (app c)\<lparr>selectedAngle := Some (marketingAngles (app c) ! i)\<rparr>\<rparr>
      else c)"
| "step c GenerateClicked =
     (if generateRendered (app c) \<and> \<not> generateDisabled (app c)
      then startCall c (CampaignCall (productPhoto (app c)))
             (generateCampaignAssets_begin (app c))
      else c)"
| "step c VariationClicked =
     (if step3Rendered (app c) \<and> \<not> variationDisabled (app c)
      then startCall c VariationCall (generateBannerVariation_begin (app c))
      else c)"
| "step c (AnglesAnswered reply) =
     (if AnglesCall \<in> set (inFlight c)
      then c\<lparr>app := getMarketingAngles_settle reply (app c),
             inFlight := remove1 AnglesCall (inFlight c)\<rparr>
      else c)"
| "step c (CampaignAnswered r) =
     (case capturedPhoto (inFlight c) of None \<Rightarrow> c
      | Some photo \<Rightarrow>
          c\<lparr>app := generateCampaignAssets_settle photo r (app c),
            inFlight := remove1 (CampaignCall photo) (inFlight c)\<rparr>)"
| "step c (VariationAnswered reply) =
     (if VariationCall \<in> set (inFlight c)
      then c\<lparr>app := generateBannerVariation_settle reply (app c),
             inFlight := remove1 VariationCall (inFlight c)\<rparr>
      else c)"

definition run :: "Session \<Rightarrow> Event list \<Rightarrow> Session" where
  "run c events = foldl step c events"

subsection \<open>A sample session\<close>

definition samplePhoto :: string where
  "samplePhoto = ''data:image/png;base64,UEhPVE8=''"

definition sampleAngles :: "MarketingAngle list" where
  "sampleAngles =
     [\<lparr>title = ''Pure by Nature'', description = ''Soap with nothing to hide.''\<rparr>,
      \<lparr>title = ''Less is Fresh'', description = ''A minimalist routine for busy mornings.''\<rparr>,
      \<lparr>title = ''Green Ritual'', description = ''Small daily choices for the planet.''\<rparr>]"

definition imageAnswer :: "string \<Rightarrow> ImageReply" where
  "imageAnswer b =
     Resolved (Some [\<lparr>inlineData = None\<rparr>,
                     \<lparr>inlineData = Some \<lparr>data = Some b, mimeType = Some ''image/png''\<rparr>\<rparr>])"

definition textAnswer :: "string \<Rightarrow> JsValue option \<Rightarrow> JsValue TextResponse Reply" where
  "textAnswer t v = Resolved \<lparr>responseText = Some t, parsed = v\<rparr>"

definition sampleReplies :: CampaignReplies where
  \<open>sampleReplies =
     \<lparr>instagramImageReply = imageAnswer ''SU5TVEE='',
      instagramTextReply = textAnswer ''Fresh start. #soap #eco #calm'' None,
      facebookImageReply = imageAnswer ''RkFDRQ=='',
      facebookTextReply = textAnswer ''Tired of harsh soap?'' None,
      bannerImageReply = imageAnswer ''QkFOTkVS'',
      bannerTextReply =
        textAnswer ''["Go pure","Fresh, simply","Clean and green"]''
          (Some (JArray [JString ''Go pure'', JString ''Fresh, simply'',
                         JString ''Clean and green'']))\<rparr>\<close>

definition sampleAnglesReply :: "MarketingAngle list TextResponse Reply" where
  \<open>sampleAnglesReply =
     Resolved
       \<lparr>responseText =
          Some (''[{"title":"Pure by Nature","description":"Soap with nothing to hide."},''
          @ ''{"title":"Less is Fresh","description":"A minimalist routine for busy mornings."},''
          @ ''{"title":"Green Ritual","description":"Small daily choices for the planet."}]''),
        parsed = Some sampleAngles\<rparr>\<close>

text \<open>An answer that fits the schema and holds one angle, with nothing in it.\<close>

definition blankAngleReply :: "MarketingAngle list TextResponse Reply" where
  \<open>blankAngleReply =
     Resolved
       \<lparr>responseText = Some ''[{"title":"","description":""}]'',
        parsed = Some [\<lparr>title = [], description = []\<rparr>]\<rparr>\<close>

text \<open>The form filled in; then a chosen angle; then the three assets of step 3.\<close>

definition formFilled :: "Event list" where
  "formFilled =
     [PhotoLoaded (Some samplePhoto), NameTyped ''HydroFresh Soap'',
      AudienceTyped ''eco-conscious young adults'', VibeTyped ''natural, minimalist'']"

definition toAngleSelected :: "Event list" where
  "toAngleSelected =
     formFilled @ [SuggestClicked, AnglesAnswered sampleAnglesReply, AngleClicked 1]"

definition toAssetsReady :: "Event list" where
  "toAssetsReady = toAngleSelected @ [GenerateClicked, CampaignAnswered sampleReplies]"

text \<open>And on to a first edited banner.\<close>

definition toEdited :: "Event list" where
  "toEdited =
     toAssetsReady
     @ [PromptTyped ''Change the background to lime green'', VariationClicked,
        VariationAnswered (imageAnswer ''RURJVA=='')]"

text \<open>The answers of the sample, but the Facebook image call answers with text only.\<close>

definition facebookImageMissing :: CampaignReplies where
  "facebookImageMissing =
     sampleReplies\<lparr>facebookImageReply := Resolved (Some [\<lparr>inlineData = None\<rparr>])\<rparr>"

text \<open>Two parts with \<^verbatim>\<open>inlineData\<close>: the first with empty data, the second with an image.\<close>

definition emptyThenImage :: "Part list" where
  "emptyThenImage =
     [\<lparr>inlineData = Some \<lparr>data = Some [], mimeType = Some ''image/png''\<rparr>\<rparr>,
      \<lparr>inlineData = Some \<lparr>data = Some ''SU1BR0U='', mimeType = Some ''image/png''\<rparr>\<rparr>]"

text \<open>The sample session, after which the photo is read again and the read fails.\<close>

definition toPhotoLost :: "Event list" where
  "toPhotoLost =
     toAssetsReady @ [PromptTyped ''Change the background to lime green'', PhotoLoaded None]"

text \<open>
  With an angle chosen: the campaign is requested; while it is in flight new angles are
  requested; the campaign arrives, then the angles; an angle of the new batch is chosen.
\<close>

definition toStaleAssets :: "Event list" where
  "toStaleAssets =
     toAngleSelected
     @ [GenerateClicked, SuggestClicked, CampaignAnswered sampleReplies,
        AnglesAnswered sampleAnglesReply, AngleClicked 0]"

text \<open>A second batch of angles.\<close>

definition otherAngles :: "MarketingAngle list" where
  "otherAngles =
     [\<lparr>title = ''Bare Essentials'', description = ''Only what your skin needs.''\<rparr>,
      \<lparr>title = ''Morning Reset'', description = ''Start clean, stay calm.''\<rparr>,
      \<lparr>title = ''Zero Waste Wash'', description = ''A bar that leaves nothing behind.''\<rparr>]"

definition otherAnglesReply :: "MarketingAngle list TextResponse Reply" where
  "otherAnglesReply = Resolved \<lparr>responseText = None, parsed = Some otherAngles\<rparr>"



text \<open>
  The answers of the sample, but the Instagram text response has no text and the banner text
  parses to one string.
\<close>

definition uncheckedTexts :: CampaignReplies where
  \<open>uncheckedTexts =
     sampleReplies
       \<lparr>instagramTextReply := Resolved \<lparr>responseText = None, parsed = None\<rparr>,
        bannerTextReply := textAnswer ''"Go pure"'' (Some (JString ''Go pure''))\<rparr>\<close>

text \<open>A form with the three texts and no photo.\<close>

definition photoMissingForm :: "Event list" where
  "photoMissingForm =
     [NameTyped ''HydroFresh Soap'', AudienceTyped ''eco-conscious young adults'',
      VibeTyped ''natural, minimalist'']"

text \<open>The states the sample session goes through, written out.\<close>

definition angleSelectedState :: AppState where
  "angleSelectedState =
     \<lparr>productPhoto = Some samplePhoto, productName = ''HydroFresh Soap'',
      targetAudience = ''eco-conscious young adults'', desiredVibe = ''natural, minimalist'',
      marketingAngles = sampleAngles, selectedAngle = Some (sampleAngles ! 1),
      campaignAssets = [], bannerVariationPrompt = [], editedBanner = None,
      isLoading = False, loadingMessage = ''Brainstorming strategic angles...'',
      currentStep = 2, error = None\<rparr>"

definition sampleAssets :: "CampaignAsset list" where
  "sampleAssets =
     [\<lparr>asset_title = ''Instagram Lifestyle Post'',
       asset_image = ''data:image/png;base64,SU5TVEE='',
       asset_text = JString ''Fresh start. #soap #eco #calm''\<rparr>,
      \<lparr>asset_title = ''Facebook Ad (Focus on People)'',
       asset_image = ''data:image/png;base64,RkFDRQ=='',
       asset_text = JString ''Tired of harsh soap?''\<rparr>,
      \<lparr>asset_title = ''Web Banner (Graphic & Direct)'',
       asset_image = ''data:image/png;base64,QkFOTkVS'',
       asset_text =
         JArray [JString ''Go pure'', JString ''Fresh, simply'', JString ''Clean and green'']\<rparr>]"

definition assetsReadyState :: AppState where
  "assetsReadyState =
     angleSelectedState
       \<lparr>campaignAssets := sampleAssets,
        loadingMessage := ''Generating your full campaign assets...'', currentStep := 3\<rparr>"

definition editedState :: AppState where
  "editedState =
     assetsReadyState
       \<lparr>bannerVariationPrompt := ''Change the background to lime green'',
        editedBanner := Some ''data:image/png;base64,RURJVA=='',
        loadingMessage := ''Generating variation...''\<rparr>"

definition photoLostState :: AppState where
  "photoLostState =
     assetsReadyState
       \<lparr>productPhoto := None,
        bannerVariationPrompt := ''Change the background to lime green''\<rparr>"

subsection \<open>Notions used to state the properties\<close>

text \<open>A promise that was fulfilled, and the six sub-calls of a campaign all fulfilled.\<close>

definition fulfilled :: "'e + 'a \<Rightarrow> bool" where
  "fulfilled p = (case p of Inr _ \<Rightarrow> True | Inl _ \<Rightarrow> False)"

definition allFulfilled :: "string option \<Rightarrow> CampaignReplies \<Rightarrow> bool" where
  "allFulfilled photo r =
     (fulfilled (generateImage photo (instagramImageReply r))
      \<and> fulfilled (generateText False (instagramTextReply r))
      \<and> fulfilled (generateImage photo (facebookImageReply r))
      \<and> fulfilled (generateText False (facebookTextReply r))
      \<and> fulfilled (generateImage photo (bannerImageReply r))
      \<and> fulfilled (generateText True (bannerTextReply r)))"

text \<open>
  The first content part, in the order of the response, that carries
  \<^verbatim>\<open>inlineData\<close>: the words of the specification, to be compared with the loop.
\<close>

definition firstImagePart :: "Part list \<Rightarrow> Part option" where
  "firstImagePart parts = List.find (\<lambda>part. inlineData part \<noteq> None) parts"

text \<open>The data of that part, when it is a string that is not empty.\<close>

definition firstImageData :: "Part list \<Rightarrow> string option" where
  "firstImageData parts =
     (case firstImagePart parts of None \<Rightarrow> None
      | Some part \<Rightarrow>
          (case Option.bind (inlineData part) data of None \<Rightarrow> None
           | Some b \<Rightarrow> if b = [] then None else Some b))"

text \<open>
  What the answer to a variation request holds: the image, when the parts can be read and the
  first part with \<^verbatim>\<open>inlineData\<close> has data that is not empty; else the message for
  the failure, one for an answer without an image, the other for a rejection and for parts
  that cannot be read.
\<close>

definition variationImage :: "ImageReply \<Rightarrow> string option" where
  "variationImage reply =
     (case reply of Resolved (Some parts) \<Rightarrow> firstImageData parts | _ \<Rightarrow> None)"

definition variationFailure :: "ImageReply \<Rightarrow> string" where
  "variationFailure reply =
     (case reply of
        Resolved (Some parts) \<Rightarrow>
          ''The model did not return an edited image. Please try a different prompt.''
      | _ \<Rightarrow> ''Failed to generate banner variation. Please try again.'')"

text \<open>The only titles a stored collection has.\<close>

definition campaignTitles :: "string list" where
  "campaignTitles =
     [''Instagram Lifestyle Post'', ''Facebook Ad (Focus on People)'',
      ''Web Banner (Graphic & Direct)'']"

definition campaignShaped :: "CampaignAsset list \<Rightarrow> bool" where
  "campaignShaped assets = (assets = [] \<or> map asset_title assets = campaignTitles)"

section \<open>Properties\<close>

subsection \<open>The handlers past their guards\<close>

lemma getMarketingAngles_unfold:
  assumes "truthy (productName s)" "truthy (targetAudience s)" "truthy (desiredVibe s)"
  shows "getMarketingAngles s reply =
     getMarketingAngles_settle reply
       (s\<lparr>isLoading := True, loadingMessage := ''Brainstorming strategic angles...'',
          error := None, marketingAngles := [], selectedAngle := None,
          campaignAssets := [], editedBanner := None\<rparr>)"
  using assms by (simp add: getMarketingAngles_def getMarketingAngles_begin_def)

lemma generateCampaignAssets_unfold:
  assumes "selectedAngle s = Some a" "truthy (productName s)" "present (productPhoto s)"
  shows "generateCampaignAssets s r =
     generateCampaignAssets_settle (productPhoto s) r
       (s\<lparr>isLoading := True,
          loadingMessage := ''Generating your full campaign assets...'',
          error := None, campaignAssets := [], editedBanner := None\<rparr>)"
  using assms by (simp add: generateCampaignAssets_def generateCampaignAssets_begin_def)

lemma generateBannerVariation_unfold:
  assumes "truthy (bannerVariationPrompt s)" "originalBanner s = Some banner"
    "productPhoto s = Some photo" "truthy photo"
  shows "generateBannerVariation s reply =
     generateBannerVariation_settle reply
       (s\<lparr>isLoading := True, loadingMessage := ''Generating variation...'',
          error := None, editedBanner := None\<rparr>)"
  using assms by (simp add: generateBannerVariation_def generateBannerVariation_begin_def)

text \<open>The handler of step 1 does not look at the photo: only the button does.\<close>

lemma getMarketingAngles_begin_ignores_photo:
  "getMarketingAngles_begin (s\<lparr>productPhoto := p\<rparr>) =
     ((fst (getMarketingAngles_begin s))\<lparr>productPhoto := p\<rparr>,
      snd (getMarketingAngles_begin s))"
  by (simp add: getMarketingAngles_begin_def anglesPrompt_def)

text \<open>The handler of step 4 with the banner found and no photo.\<close>

lemma generateBannerVariation_begin_photo_missing:
  assumes "truthy (bannerVariationPrompt s)" and "originalBanner s = Some banner"
    and "\<not> present (productPhoto s)"
  shows "generateBannerVariation_begin s =
           (s\<lparr>error := Some ''Original product photo not found. Please ensure it is still loaded in Step 1.''\<rparr>,
            [])"
  using assms
  by (auto simp: generateBannerVariation_begin_def present_def split: option.splits)

text \<open>
  The handler of step 1 past its guard clears the selection, the assets and the edited banner
  at once, and they are still cleared when it has run to its end with nothing in between.
\<close>

lemma getMarketingAngles_resets_at_call:
  assumes "truthy (productName s)" and "truthy (targetAudience s)" and "truthy (desiredVibe s)"
  shows "selectedAngle (fst (getMarketingAngles_begin s)) = None
       \<and> campaignAssets (fst (getMarketingAngles_begin s)) = []
       \<and> editedBanner (fst (getMarketingAngles_begin s)) = None
       \<and> marketingAngles (fst (getMarketingAngles_begin s)) = []
       \<and> selectedAngle (getMarketingAngles s reply) = None
       \<and> campaignAssets (getMarketingAngles s reply) = []
       \<and> editedBanner (getMarketingAngles s reply) = None"
proof -
  note u = getMarketingAngles_unfold [OF assms]
  have b: "fst (getMarketingAngles_begin s) =
       s\<lparr>isLoading := True, loadingMessage := ''Brainstorming strategic angles...'',
          error := None, marketingAngles := [], selectedAngle := None,
          campaignAssets := [], editedBanner := None\<rparr>"
    using assms by (simp add: getMarketingAngles_begin_def)
  show ?thesis
  proof (cases reply)
    case Rejected
    then show ?thesis by (simp add: u b getMarketingAngles_settle_def)
  next
    case (Resolved response)
    then show ?thesis
      by (cases "parsed response") (simp_all add: u b getMarketingAngles_settle_def)
  qed
qed

text \<open>
  Each handler that sends a request has set the busy flag in the state it leaves at its
  \<^verbatim>\<open>await\<close>, and clears it when it resumes, whatever the answer.
\<close>

lemma busy_flag_set_then_released:
  "(snd (getMarketingAngles_begin s) \<noteq> [] \<longrightarrow> isLoading (fst (getMarketingAngles_begin s)))
 \<and> (snd (generateCampaignAssets_begin s) \<noteq> []
       \<longrightarrow> isLoading (fst (generateCampaignAssets_begin s)))
 \<and> (snd (generateBannerVariation_begin s) \<noteq> []
       \<longrightarrow> isLoading (fst (generateBannerVariation_begin s)))
 \<and> \<not> isLoading (getMarketingAngles_settle anglesReply s)
 \<and> \<not> isLoading (generateCampaignAssets_settle photo campaignReplies s)
 \<and> \<not> isLoading (generateBannerVariation_settle imageReply s)"
  by (simp add: getMarketingAngles_begin_def generateCampaignAssets_begin_def
      generateBannerVariation_begin_def getMarketingAngles_settle_def
      generateCampaignAssets_settle_def generateBannerVariation_settle_def
      split: option.splits Reply.splits sum.splits)

subsection \<open>The join of the six promises\<close>

lemma promiseAll_Some:
  "promiseAll a b c d e f = Some t \<longleftrightarrow>
     (\<exists>x1 x2 x3 x4 x5 x6. a = Inr x1 \<and> b = Inr x2 \<and> c = Inr x3 \<and> d = Inr x4 \<and> e = Inr x5
        \<and> f = Inr x6 \<and> t = (x1, x2, x3, x4, x5, x6))"
  by (cases a; cases b; cases c; cases d; cases e; cases f) auto

lemma promiseAll_None:
  "promiseAll a b c d e f = None \<longleftrightarrow>
     \<not> (fulfilled a \<and> fulfilled b \<and> fulfilled c \<and> fulfilled d \<and> fulfilled e \<and> fulfilled f)"
  by (cases a; cases b; cases c; cases d; cases e; cases f) (simp_all add: fulfilled_def)

lemma generateText_plain:
  "generateText False reply = Inr t \<Longrightarrow>
     \<exists>result. reply = Resolved result \<and> t = textValue (responseText result)"
  by (cases reply) (simp_all add: generateText_def)

lemma generateText_json:
  "generateText True reply = Inr t \<Longrightarrow>
     \<exists>result. reply = Resolved result \<and> parsed result = Some t"
  by (cases reply) (auto simp: generateText_def split: option.splits)

subsection \<open>The loop over the parts\<close>

lemma newImageBase64_find:
  "newImageBase64 parts =
     (case firstImagePart parts of None \<Rightarrow> None
      | Some part \<Rightarrow> Option.bind (inlineData part) data)"
  by (induction parts) (auto simp: firstImagePart_def split: option.splits)

lemma firstImageData_loop:
  "firstImageData parts =
     (case newImageBase64 parts of None \<Rightarrow> None
      | Some b \<Rightarrow> if truthy b then Some b else None)"
  by (simp add: firstImageData_def newImageBase64_find truthy_def split: option.splits)

subsection \<open>The shape of the asset collection in every session\<close>

lemma shaped_angles_begin:
  "campaignShaped (campaignAssets s) \<Longrightarrow>
   campaignShaped (campaignAssets (fst (getMarketingAngles_begin s)))"
  by (simp add: getMarketingAngles_begin_def campaignShaped_def)

lemma shaped_campaign_begin:
  "campaignShaped (campaignAssets s) \<Longrightarrow>
   campaignShaped (campaignAssets (fst (generateCampaignAssets_begin s)))"
  by (simp add: generateCampaignAssets_begin_def campaignShaped_def split: option.splits)

lemma assets_variation_begin:
  "campaignAssets (fst (generateBannerVariation_begin s)) = campaignAssets s"
  by (simp add: generateBannerVariation_begin_def split: option.splits)

lemma assets_angles_settle:
  "campaignAssets (getMarketingAngles_settle reply s) = campaignAssets s"
  by (simp add: getMarketingAngles_settle_def split: Reply.splits option.splits)

lemma shaped_campaign_settle:
  "campaignShaped (campaignAssets s) \<Longrightarrow>
   campaignShaped (campaignAssets (generateCampaignAssets_settle photo r s))"
  by (simp add: generateCampaignAssets_settle_def campaignShaped_def campaignTitles_def
      split: option.splits)

lemma assets_variation_settle:
  "campaignAssets (generateBannerVariation_settle reply s) = campaignAssets s"
  by (simp add: generateBannerVariation_settle_def split: Reply.splits option.splits)

lemma app_startCall: "app (startCall c p r) = fst r"
  by (cases r) (simp add: startCall_def)

lemma shaped_step:
  "campaignShaped (campaignAssets (app c)) \<Longrightarrow>
   campaignShaped (campaignAssets (app (step c e)))"
  by (cases e)
     (simp_all add: app_startCall shaped_angles_begin shaped_campaign_begin
        assets_variation_begin assets_angles_settle shaped_campaign_settle
        assets_variation_settle split: option.splits)

lemma shaped_run:
  "campaignShaped (campaignAssets (app c)) \<Longrightarrow>
   campaignShaped (campaignAssets (app (run c events)))"
  unfolding run_def by (induction events arbitrary: c) (simp_all add: shaped_step)

lemma shaped_reachable:
  "campaignShaped (campaignAssets (app (run initialSession events)))"
  by (rule shaped_run) (simp add: initialSession_def initialState_def campaignShaped_def)

lemma includesStr_titles:
  "\<not> includesStr ''Instagram Lifestyle Post'' ''Web Banner''"
  "\<not> includesStr ''Facebook Ad (Focus on People)'' ''Web Banner''"
  "includesStr ''Web Banner (Graphic & Direct)'' ''Web Banner''"
  by simp_all

lemma shaped_banner:
  assumes "campaignShaped assets"
  shows "(assets = [] \<and> List.find isWebBanner assets = None)
       \<or> (length assets = 3 \<and> List.find isWebBanner assets = Some (assets ! 2)
          \<and> filter isWebBanner assets = [assets ! 2])"
proof (cases "assets = []")
  case True
  then show ?thesis by simp
next
  case False
  with assms have t: "map asset_title assets = campaignTitles"
    by (simp add: campaignShaped_def)
  then have "length assets = 3"
    by (metis length_map campaignTitles_def length_Cons list.size(3) numeral_3_eq_3)
  then obtain a b c where abc: "assets = [a, b, c]"
    by (auto simp: numeral_3_eq_3 length_Suc_conv)
  with t have "asset_title a = ''Instagram Lifestyle Post''"
    "asset_title b = ''Facebook Ad (Focus on People)''"
    "asset_title c = ''Web Banner (Graphic & Direct)''"
    by (simp_all add: campaignTitles_def)
  with abc show ?thesis
    by (simp add: isWebBanner_def includesStr_titles)
qed

text \<open>Where the page of step 4 is rendered, the lookup of the banner succeeds.\<close>

lemma banner_found_when_rendered:
  assumes "step3Rendered (app (run initialSession events))"
  shows "\<exists>banner. originalBanner (app (run initialSession events)) = Some banner"
proof -
  from assms have "campaignAssets (app (run initialSession events)) \<noteq> []"
    by (simp add: step3Rendered_def)
  with shaped_banner [OF shaped_reachable, of events] show ?thesis
    by (auto simp: originalBanner_def)
qed

subsection \<open>Evaluating the sample session\<close>

lemmas handler_defs =
  getMarketingAngles_begin_def getMarketingAngles_settle_def getMarketingAngles_def
  generateCampaignAssets_begin_def generateCampaignAssets_settle_def generateCampaignAssets_def
  generateBannerVariation_begin_def generateBannerVariation_settle_def
  generateBannerVariation_def generateImage_def generateText_def textValue_def
  generateImage_request_def
  originalBanner_def isWebBanner_def dataUrl_def

lemmas page_defs =
  isStep1Complete_def suggestDisabled_def step2Rendered_def generateRendered_def
  generateDisabled_def step3Rendered_def variationDisabled_def truthy_def present_def
  startCall_def

lemmas sample_defs =
  samplePhoto_def sampleAngles_def imageAnswer_def textAnswer_def sampleReplies_def
  sampleAnglesReply_def blankAngleReply_def facebookImageMissing_def emptyThenImage_def
  uncheckedTexts_def otherAngles_def otherAnglesReply_def
  angleSelectedState_def sampleAssets_def assetsReadyState_def editedState_def
  photoLostState_def

text \<open>The sample session does reach the states written out above.\<close>

lemma sample_states:
  "app (run initialSession toAngleSelected) = angleSelectedState"
  "app (run initialSession toAssetsReady) = assetsReadyState"
  "app (run initialSession toEdited) = editedState"
  "app (run initialSession toPhotoLost) = photoLostState"
  by code_simp+

lemma sample_nothing_in_flight:
  "inFlight (run initialSession toAngleSelected) = []"
  "inFlight (run initialSession toAssetsReady) = []"
  "inFlight (run initialSession toEdited) = []"
  by code_simp+

section \<open>The claims\<close>

subsection \<open>The campaign is stored whole or not at all\<close>

text \<open>
  Claim C1, as amended. Every call of \<^verbatim>\<open>generateCampaignAssets\<close> that passes its
  guard (an angle is selected, the name is not empty, the photo is there) empties the asset
  collection and clears the edited banner when it starts, sends its requests, and leaves the
  selection and the step alone. When the six sub-calls have settled, in whatever state the
  page then is: if one of them failed, the handler writes the failure message and releases
  the busy flag and writes nothing else, so no asset is stored and the collection, the step
  and the selection are what they were on arrival; if all six succeeded, three assets are
  stored and the step is 3. When nothing else is written between the start and the arrival,
  the collection is therefore empty after a failure (a collection left by an earlier campaign
  is lost), the step is what it was before the call, the selection is kept and the edited
  banner is cleared.
\<close>

theorem generateCampaignAssets_all_or_nothing:
  assumes "selectedAngle s \<noteq> None" and "truthy (productName s)"
    and "present (productPhoto s)"
  shows "snd (generateCampaignAssets_begin s) \<noteq> []
       \<and> campaignAssets (fst (generateCampaignAssets_begin s)) = []
       \<and> editedBanner (fst (generateCampaignAssets_begin s)) = None
       \<and> selectedAngle (fst (generateCampaignAssets_begin s)) = selectedAngle s
       \<and> currentStep (fst (generateCampaignAssets_begin s)) = currentStep s
       \<and> (if allFulfilled (productPhoto s) r
           then length (campaignAssets (generateCampaignAssets_settle (productPhoto s) r t)) = 3
              \<and> currentStep (generateCampaignAssets_settle (productPhoto s) r t) = 3
              \<and> error (generateCampaignAssets_settle (productPhoto s) r t) = error t
              \<and> selectedAngle (generateCampaignAssets_settle (productPhoto s) r t)
                  = selectedAngle t
              \<and> \<not> isLoading (generateCampaignAssets_settle (productPhoto s) r t)
           else generateCampaignAssets_settle (productPhoto s) r t
                  = t\<lparr>error := Some ''Failed to generate the campaign. Please try again.'',
                      isLoading := False\<rparr>)
       \<and> (if allFulfilled (productPhoto s) r
           then length (campaignAssets (generateCampaignAssets s r)) = 3
              \<and> error (generateCampaignAssets s r) = None
              \<and> currentStep (generateCampaignAssets s r) = 3
           else campaignAssets (generateCampaignAssets s r) = []
              \<and> error (generateCampaignAssets s r)
                  = Some ''Failed to generate the campaign. Please try again.''
              \<and> currentStep (generateCampaignAssets s r) = currentStep s)
       \<and> selectedAngle (generateCampaignAssets s r) = selectedAngle s
       \<and> editedBanner (generateCampaignAssets s r) = None
       \<and> \<not> isLoading (generateCampaignAssets s r)"
proof -
  from assms(1) obtain a where a: "selectedAngle s = Some a" by auto
  note u = generateCampaignAssets_unfold [OF a assms(2,3)]
  have b: "generateCampaignAssets_begin s =
      (s\<lparr>isLoading := True,
          loadingMessage := ''Generating your full campaign assets...'',
          error := None, campaignAssets := [], editedBanner := None\<rparr>,
       snd (generateCampaignAssets_begin s))"
    "snd (generateCampaignAssets_begin s) \<noteq> []"
    using a assms(2,3) by (simp_all add: generateCampaignAssets_begin_def)
  let ?j = "promiseAll
             (generateImage (productPhoto s) (instagramImageReply r))
             (generateText False (instagramTextReply r))
             (generateImage (productPhoto s) (facebookImageReply r))
             (generateText False (facebookTextReply r))
             (generateImage (productPhoto s) (bannerImageReply r))
             (generateText True (bannerTextReply r))"
  have started: "snd (generateCampaignAssets_begin s) \<noteq> []
       \<and> campaignAssets (fst (generateCampaignAssets_begin s)) = []
       \<and> editedBanner (fst (generateCampaignAssets_begin s)) = None
       \<and> selectedAngle (fst (generateCampaignAssets_begin s)) = selectedAngle s
       \<and> currentStep (fst (generateCampaignAssets_begin s)) = currentStep s"
    using b(2) by (subst (1 2 3 4) b(1)) simp
  show ?thesis
  proof (cases ?j)
    case None
    then have "\<not> allFulfilled (productPhoto s) r"
      by (simp add: promiseAll_None allFulfilled_def)
    with None started show ?thesis
      by (simp add: u generateCampaignAssets_settle_def)
  next
    case (Some x)
    then have "?j \<noteq> None" by simp
    then have "allFulfilled (productPhoto s) r"
      unfolding promiseAll_None allFulfilled_def by simp
    with Some started show ?thesis
      by (cases x) (simp add: u generateCampaignAssets_settle_def)
  qed
qed

text \<open>
  With an angle chosen, the Facebook image call answers without an image: nothing is stored,
  the step stays 2 and the chosen angle stays chosen. With the answers of the sample, the three
  assets are stored.
\<close>

theorem generateCampaignAssets_all_or_nothing_witness:
  "selectedAngle angleSelectedState \<noteq> None
   \<and> truthy (productName angleSelectedState)
   \<and> present (productPhoto angleSelectedState)
   \<and> \<not> allFulfilled (productPhoto angleSelectedState) facebookImageMissing
   \<and> campaignAssets (generateCampaignAssets angleSelectedState facebookImageMissing) = []
   \<and> currentStep (generateCampaignAssets angleSelectedState facebookImageMissing) = 2
   \<and> selectedAngle (generateCampaignAssets angleSelectedState facebookImageMissing)
       = Some (sampleAngles ! 1)
   \<and> campaignAssets
        (generateCampaignAssets_settle (Some samplePhoto) facebookImageMissing assetsReadyState)
       = sampleAssets
   \<and> allFulfilled (productPhoto angleSelectedState) sampleReplies
   \<and> length (campaignAssets (generateCampaignAssets angleSelectedState sampleReplies)) = 3
   \<and> currentStep (generateCampaignAssets angleSelectedState sampleReplies) = 3"
  using generateCampaignAssets_all_or_nothing
          [of angleSelectedState facebookImageMissing assetsReadyState]
    generateCampaignAssets_all_or_nothing
          [of angleSelectedState sampleReplies assetsReadyState]
  by (simp add: sample_defs page_defs handler_defs allFulfilled_def fulfilled_def)

text \<open>
  Claim C1 as it is written says that a failing operation leaves the asset collection
  unchanged. In the sample session the three assets are on the page at step 3; the button of
  step 2 is still there and enabled; the campaign is generated again and the Facebook image
  call answers without an image. The three assets are gone. The same happens at step 2: in
  the session where new angles were requested while the campaign was in flight, the step is 2,
  an angle is chosen and the three assets are stored; the campaign is generated, the Facebook
  image call answers without an image, and the three assets are gone, the step still 2.
\<close>

theorem generateCampaignAssets_unchanged_counterexample:
  "\<not> allFulfilled (Some samplePhoto) facebookImageMissing
   \<and> currentStep (app (run initialSession toAssetsReady)) = 3
   \<and> campaignAssets (app (run initialSession toAssetsReady)) = sampleAssets
   \<and> campaignAssets
        (app (run initialSession
           (toAssetsReady @ [GenerateClicked, CampaignAnswered facebookImageMissing]))) = []
   \<and> currentStep (app (run initialSession toStaleAssets)) = 2
   \<and> selectedAngle (app (run initialSession toStaleAssets)) = Some (sampleAngles ! 0)
   \<and> campaignAssets (app (run initialSession toStaleAssets)) = sampleAssets
   \<and> campaignAssets
        (app (run initialSession
           (toStaleAssets @ [GenerateClicked, CampaignAnswered facebookImageMissing]))) = []
   \<and> currentStep
        (app (run initialSession
           (toStaleAssets @ [GenerateClicked, CampaignAnswered facebookImageMissing]))) = 2
   \<and> campaignAssets
        (generateCampaignAssets (app (run initialSession toStaleAssets)) facebookImageMissing)
      \<noteq> campaignAssets (app (run initialSession toStaleAssets))"
  by code_simp

subsection \<open>A failed variation clears the edited banner\<close>

text \<open>
  Claim C2, as amended. Every call of \<^verbatim>\<open>generateBannerVariation\<close> that sends its
  request (the instruction is not empty, the banner is found, the photo is there) clears the
  edited banner and the error before the request leaves. When the answer arrives, in whatever
  state the page then is: if the answer holds an image, the handler stores it as the edited
  banner and releases the busy flag, and writes nothing else; if it does not (the service
  rejects, the parts cannot be read, no part gives an image), the handler writes the message
  of that failure and releases the busy flag, and writes nothing else. When nothing else is
  written between the start and the arrival, a successful call therefore ends with the new
  edited banner and no error, and a failed call ends with the error and with no edited banner:
  the one stored before the call is lost. The asset collection is never written.
\<close>

theorem generateBannerVariation_replaces_or_clears:
  assumes "truthy (bannerVariationPrompt s)" and "originalBanner s \<noteq> None"
    and "present (productPhoto s)"
  shows "snd (generateBannerVariation_begin s) \<noteq> []
       \<and> editedBanner (fst (generateBannerVariation_begin s)) = None
       \<and> error (fst (generateBannerVariation_begin s)) = None
       \<and> campaignAssets (fst (generateBannerVariation_begin s)) = campaignAssets s
       \<and> generateBannerVariation_settle reply t =
           (case variationImage reply of
              Some b \<Rightarrow> t\<lparr>editedBanner := Some (dataUrl b), isLoading := False\<rparr>
            | None \<Rightarrow> t\<lparr>error := Some (variationFailure reply), isLoading := False\<rparr>)
       \<and> (case variationImage reply of
              Some b \<Rightarrow>
                editedBanner (generateBannerVariation s reply) = Some (dataUrl b)
                \<and> error (generateBannerVariation s reply) = None
            | None \<Rightarrow>
                editedBanner (generateBannerVariation s reply) = None
                \<and> error (generateBannerVariation s reply) = Some (variationFailure reply))
       \<and> campaignAssets (generateBannerVariation s reply) = campaignAssets s
       \<and> \<not> isLoading (generateBannerVariation s reply)"
proof -
  from assms(2) obtain banner where b: "originalBanner s = Some banner" by auto
  from assms(3) obtain photo where p: "productPhoto s = Some photo" "truthy photo"
    by (auto simp: present_def split: option.splits)
  note u = generateBannerVariation_unfold [OF assms(1) b p]
  have started: "snd (generateBannerVariation_begin s) \<noteq> []
       \<and> editedBanner (fst (generateBannerVariation_begin s)) = None
       \<and> error (fst (generateBannerVariation_begin s)) = None
       \<and> campaignAssets (fst (generateBannerVariation_begin s)) = campaignAssets s"
    using assms(1) b p by (simp add: generateBannerVariation_begin_def)
  have settle: "generateBannerVariation_settle reply t =
           (case variationImage reply of
              Some b \<Rightarrow> t\<lparr>editedBanner := Some (dataUrl b), isLoading := False\<rparr>
            | None \<Rightarrow> t\<lparr>error := Some (variationFailure reply), isLoading := False\<rparr>)" for t
    by (simp add: generateBannerVariation_settle_def variationImage_def variationFailure_def
        firstImageData_loop split: Reply.splits option.splits)
  have "(case variationImage reply of
              Some b \<Rightarrow>
                editedBanner (generateBannerVariation s reply) = Some (dataUrl b)
                \<and> error (generateBannerVariation s reply) = None
            | None \<Rightarrow>
                editedBanner (generateBannerVariation s reply) = None
                \<and> error (generateBannerVariation s reply) = Some (variationFailure reply))
       \<and> campaignAssets (generateBannerVariation s reply) = campaignAssets s
       \<and> \<not> isLoading (generateBannerVariation s reply)"
    unfolding u settle by (simp split: option.splits)
  with started settle show ?thesis by blast
qed

text \<open>
  With an edited banner stored: the service rejects the next variation, or answers it with an
  image.
\<close>

theorem generateBannerVariation_replaces_or_clears_witness:
  "truthy (bannerVariationPrompt editedState)
   \<and> originalBanner editedState \<noteq> None
   \<and> present (productPhoto editedState)
   \<and> editedBanner (generateBannerVariation editedState Rejected) = None
   \<and> error (generateBannerVariation editedState Rejected)
       = Some ''Failed to generate banner variation. Please try again.''
   \<and> editedBanner (generateBannerVariation editedState (imageAnswer ''TkVX''))
       = Some ''data:image/png;base64,TkVX''
   \<and> error (generateBannerVariation editedState (imageAnswer ''TkVX'')) = None"
  using generateBannerVariation_replaces_or_clears [of editedState Rejected editedState]
    generateBannerVariation_replaces_or_clears
      [of editedState "imageAnswer ''TkVX''" editedState]
  by (simp add: sample_defs page_defs handler_defs variationImage_def variationFailure_def
      firstImageData_def firstImagePart_def)

text \<open>
  Claim C2 as it is written says that a failed variation leaves the stored edited banner
  untouched. In the sample session an edited banner is stored; the button is clicked again and
  the service rejects: the error is reported and the edited banner is gone.
\<close>

theorem generateBannerVariation_untouched_counterexample:
  "editedBanner (app (run initialSession toEdited)) = Some ''data:image/png;base64,RURJVA==''
   \<and> error (app (run initialSession (toEdited @ [VariationClicked, VariationAnswered Rejected])))
       = Some ''Failed to generate banner variation. Please try again.''
   \<and> editedBanner
        (app (run initialSession (toEdited @ [VariationClicked, VariationAnswered Rejected])))
       = None"
  by code_simp

subsection \<open>What a request for angles stores\<close>




subsection \<open>The four inputs\<close>

text \<open>
  Claim C4. In every session, a click on the button of step 1 does nothing when one of the four
  inputs is missing (the photo, or a name, an audience or a vibe that is not empty): the page
  state is what it was, nothing is sent and no call is in flight that was not before. The three
  texts are also tested by the handler's own guard; the photo is tested only by
  \<^verbatim>\<open>isStep1Complete\<close>, which disables the button.
\<close>

theorem suggest_needs_all_four_inputs:
  assumes "\<not> present (productPhoto (app c)) \<or> \<not> truthy (productName (app c))
         \<or> \<not> truthy (targetAudience (app c)) \<or> \<not> truthy (desiredVibe (app c))"
  shows "step c SuggestClicked = c"
  using assms by (auto simp: suggestDisabled_def isStep1Complete_def)

text \<open>The three texts typed in, no photo.\<close>

theorem suggest_needs_all_four_inputs_witness:
  "\<not> present (productPhoto (app (run initialSession photoMissingForm)))
   \<and> truthy (productName (app (run initialSession photoMissingForm)))
   \<and> truthy (targetAudience (app (run initialSession photoMissingForm)))
   \<and> truthy (desiredVibe (app (run initialSession photoMissingForm)))
   \<and> step (run initialSession photoMissingForm) SuggestClicked
       = run initialSession photoMissingForm
   \<and> sent (step (run initialSession photoMissingForm) SuggestClicked) = []"
  using suggest_needs_all_four_inputs [of "run initialSession photoMissingForm"]
  by (simp add: photoMissingForm_def run_def initialSession_def initialState_def page_defs)

subsection \<open>The order of the assets and the pairing of image and text\<close>

text \<open>
  Claim C5, as amended. Whenever the six sub-calls of \<^verbatim>\<open>generateCampaignAssets\<close> have
  all succeeded, the handler stores exactly three assets, in the order Instagram, Facebook,
  banner, the image of each being the result of the image call of the same role and the text
  of each the result of the text call of the same role. The texts are stored unchecked: the
  text of the Instagram and of the Facebook asset is the text of the response, a plain string,
  or \<^verbatim>\<open>undefined\<close> when the response has none; the text of the banner is the value
  that \<^verbatim>\<open>JSON.parse\<close> gave for the answer to the banner text call, which is a list of
  strings only when the service kept to the schema it was asked for.
\<close>

theorem generateCampaignAssets_fixed_order:
  assumes "allFulfilled photo r"
  shows "\<exists>instagramImage instagramText facebookImage facebookText bannerImage bannerText
            bannerValue.
           generateImage photo (instagramImageReply r) = Inr instagramImage
         \<and> instagramTextReply r = Resolved instagramText
         \<and> generateImage photo (facebookImageReply r) = Inr facebookImage
         \<and> facebookTextReply r = Resolved facebookText
         \<and> generateImage photo (bannerImageReply r) = Inr bannerImage
         \<and> bannerTextReply r = Resolved bannerText
         \<and> parsed bannerText = Some bannerValue
         \<and> campaignAssets (generateCampaignAssets_settle photo r t) =
             [\<lparr>asset_title = ''Instagram Lifestyle Post'', asset_image = instagramImage,
               asset_text = textValue (responseText instagramText)\<rparr>,
              \<lparr>asset_title = ''Facebook Ad (Focus on People)'', asset_image = facebookImage,
               asset_text = textValue (responseText facebookText)\<rparr>,
              \<lparr>asset_title = ''Web Banner (Graphic & Direct)'', asset_image = bannerImage,
               asset_text = bannerValue\<rparr>]
         \<and> (selectedAngle s \<noteq> None \<and> truthy (productName s) \<and> present (productPhoto s)
              \<and> productPhoto s = photo
              \<longrightarrow> campaignAssets (generateCampaignAssets s r)
                    = campaignAssets (generateCampaignAssets_settle photo r t))"
proof -
  let ?j = "promiseAll
             (generateImage photo (instagramImageReply r))
             (generateText False (instagramTextReply r))
             (generateImage photo (facebookImageReply r))
             (generateText False (facebookTextReply r))
             (generateImage photo (bannerImageReply r))
             (generateText True (bannerTextReply r))"
  from assms have "?j \<noteq> None"
    unfolding promiseAll_None allFulfilled_def by simp
  then obtain x where x: "?j = Some x" by auto
  then obtain x1 x2 x3 x4 x5 x6 where
    r: "generateImage photo (instagramImageReply r) = Inr x1"
       "generateText False (instagramTextReply r) = Inr x2"
       "generateImage photo (facebookImageReply r) = Inr x3"
       "generateText False (facebookTextReply r) = Inr x4"
       "generateImage photo (bannerImageReply r) = Inr x5"
       "generateText True (bannerTextReply r) = Inr x6"
    and t: "x = (x1, x2, x3, x4, x5, x6)"
    unfolding promiseAll_Some by blast
  from generateText_plain [OF r(2)] obtain it where
    it: "instagramTextReply r = Resolved it" "x2 = textValue (responseText it)" by blast
  from generateText_plain [OF r(4)] obtain ft where
    ft: "facebookTextReply r = Resolved ft" "x4 = textValue (responseText ft)" by blast
  from generateText_json [OF r(6)] obtain bt where
    bt: "bannerTextReply r = Resolved bt" "parsed bt = Some x6" by blast
  have stored: "campaignAssets (generateCampaignAssets_settle photo r t') =
             [\<lparr>asset_title = ''Instagram Lifestyle Post'', asset_image = x1,
               asset_text = textValue (responseText it)\<rparr>,
              \<lparr>asset_title = ''Facebook Ad (Focus on People)'', asset_image = x3,
               asset_text = textValue (responseText ft)\<rparr>,
              \<lparr>asset_title = ''Web Banner (Graphic & Direct)'', asset_image = x5,
               asset_text = x6\<rparr>]" for t'
    using x t it(2) ft(2) by (simp add: generateCampaignAssets_settle_def)
  have whole: "selectedAngle s \<noteq> None \<and> truthy (productName s) \<and> present (productPhoto s)
              \<and> productPhoto s = photo
              \<longrightarrow> campaignAssets (generateCampaignAssets s r)
                    = campaignAssets (generateCampaignAssets_settle photo r t)"
  proof (intro impI, elim conjE)
    assume g: "selectedAngle s \<noteq> None" "truthy (productName s)" "present (productPhoto s)"
      "productPhoto s = photo"
    from g(1) obtain a where a: "selectedAngle s = Some a" by auto
    from generateCampaignAssets_unfold [OF a g(2,3), of r] g(4)
    show "campaignAssets (generateCampaignAssets s r)
            = campaignAssets (generateCampaignAssets_settle photo r t)"
      by (simp add: stored)
  qed
  from r(1,3,5) it(1) ft(1) bt stored [of t] whole show ?thesis by blast
qed

text \<open>With an angle chosen and the six answers of the sample.\<close>

theorem generateCampaignAssets_fixed_order_witness:
  "allFulfilled (Some samplePhoto) sampleReplies
   \<and> selectedAngle angleSelectedState \<noteq> None
   \<and> truthy (productName angleSelectedState)
   \<and> present (productPhoto angleSelectedState)
   \<and> productPhoto angleSelectedState = Some samplePhoto
   \<and> campaignAssets (generateCampaignAssets angleSelectedState sampleReplies) = sampleAssets"
  using generateCampaignAssets_fixed_order
          [of "Some samplePhoto" sampleReplies angleSelectedState angleSelectedState]
  by (simp add: sample_defs page_defs handler_defs allFulfilled_def fulfilled_def)

text \<open>
  Claim C5 as it is written says that the text of the banner is a list of strings and the
  other two texts are plain strings. With an angle chosen, the six sub-calls succeed; the
  Instagram text response has no text and the answer to the banner text call parses to one
  string. The campaign is stored without an error, the step is 3, the text of the Instagram
  asset is \<^verbatim>\<open>undefined\<close> and the text of the banner is a plain string.
\<close>

theorem generateCampaignAssets_text_types_counterexample:
  "allFulfilled (Some samplePhoto) uncheckedTexts
   \<and> error (app (run initialSession
        (toAngleSelected @ [GenerateClicked, CampaignAnswered uncheckedTexts]))) = None
   \<and> currentStep (app (run initialSession
        (toAngleSelected @ [GenerateClicked, CampaignAnswered uncheckedTexts]))) = 3
   \<and> map asset_text (campaignAssets (app (run initialSession
        (toAngleSelected @ [GenerateClicked, CampaignAnswered uncheckedTexts]))))
       = [JUndefined, JString ''Tired of harsh soap?'', JString ''Go pure'']"
  by code_simp

subsection \<open>The image taken from a response\<close>

text \<open>
  Claim C6, as amended. For every response whose parts can be read, \<^verbatim>\<open>generateImage\<close>
  (called with a photo) looks at the first part, in the order of the response, that has
  \<^verbatim>\<open>inlineData\<close>, and at no later part: when the data of that part is a string that is
  not empty, it returns that data as a PNG data URL; it fails, saying that no image was
  returned, exactly when no part has \<^verbatim>\<open>inlineData\<close> or the data of the first such part
  is undefined or empty. The loop in \<^verbatim>\<open>generateBannerVariation\<close> does the same, and
  stores the image or reports that no edited image was returned.
\<close>

theorem generateImage_first_inline_part:
  assumes "present photo"
  shows "generateImage photo (Resolved (Some parts)) =
           (case firstImageData parts of
              None \<Rightarrow> Inl NoImageReturned
            | Some b \<Rightarrow> Inr (dataUrl b))
       \<and> generateBannerVariation_settle (Resolved (Some parts)) s =
           (case firstImageData parts of
              None \<Rightarrow>
                s\<lparr>error := Some ''The model did not return an edited image. Please try a different prompt.'',
                  isLoading := False\<rparr>
            | Some b \<Rightarrow> s\<lparr>editedBanner := Some (dataUrl b), isLoading := False\<rparr>)"
  using assms
  by (simp add: generateImage_def generateBannerVariation_settle_def firstImageData_loop
      split: option.splits)

text \<open>A response with a text part and then an image part.\<close>

theorem generateImage_first_inline_part_witness:
  "present (Some samplePhoto)
   \<and> generateImage (Some samplePhoto)
        (Resolved (Some [\<lparr>inlineData = None\<rparr>,
           \<lparr>inlineData = Some \<lparr>data = Some ''SU1BR0U='', mimeType = None\<rparr>\<rparr>]))
       = Inr ''data:image/png;base64,SU1BR0U=''"
  using generateImage_first_inline_part
          [of "Some samplePhoto"
              "[\<lparr>inlineData = None\<rparr>,
                \<lparr>inlineData = Some \<lparr>data = Some ''SU1BR0U='', mimeType = None\<rparr>\<rparr>]"]
  by (simp add: firstImageData_def firstImagePart_def dataUrl_def samplePhoto_def
      present_def truthy_def)

text \<open>
  Claim C6 as it is written says that the call fails for want of an image exactly when no part
  of the response carries inline image data. In a response of two parts with
  \<^verbatim>\<open>inlineData\<close>, the first with empty data and the second with an image, a part does
  carry an image, and the call fails: the loop stops at the first of the two.
\<close>

theorem generateImage_no_image_counterexample:
  "Option.bind (inlineData (emptyThenImage ! 1)) data = Some ''SU1BR0U=''
   \<and> firstImagePart emptyThenImage = Some (emptyThenImage ! 0)
   \<and> generateImage (Some samplePhoto) (Resolved (Some emptyThenImage)) = Inl NoImageReturned"
  by (simp add: emptyThenImage_def firstImagePart_def generateImage_def samplePhoto_def
      present_def truthy_def)

subsection \<open>A variation without the photo\<close>

text \<open>
  Claim C7. In every session, when the page of step 4 is rendered (the only place where
  \<^verbatim>\<open>generateBannerVariation\<close> can be called from), the instruction is not empty and the
  photo is missing, the handler reports that the product photo was not found, sends nothing
  and changes no other state; a click on the button, when it is not disabled by the busy flag,
  changes the session in the error message alone.
\<close>

theorem generateBannerVariation_photo_missing:
  assumes "step3Rendered (app (run initialSession events))"
    and "truthy (bannerVariationPrompt (app (run initialSession events)))"
    and "\<not> present (productPhoto (app (run initialSession events)))"
  shows "generateBannerVariation_begin (app (run initialSession events)) =
           ((app (run initialSession events))
              \<lparr>error := Some ''Original product photo not found. Please ensure it is still loaded in Step 1.''\<rparr>,
            [])
       \<and> (\<not> isLoading (app (run initialSession events)) \<longrightarrow>
            step (run initialSession events) VariationClicked =
              (run initialSession events)
                \<lparr>app := (app (run initialSession events))
                   \<lparr>error := Some ''Original product photo not found. Please ensure it is still loaded in Step 1.''\<rparr>\<rparr>)"
proof -
  let ?c = "run initialSession events"
  let ?s = "app ?c"
  from banner_found_when_rendered [OF assms(1)] obtain banner
    where "originalBanner ?s = Some banner" by blast
  from generateBannerVariation_begin_photo_missing [OF assms(2) this assms(3)]
  have b: "generateBannerVariation_begin ?s =
      (?s\<lparr>error := Some ''Original product photo not found. Please ensure it is still loaded in Step 1.''\<rparr>, [])" .
  have "\<not> isLoading ?s \<Longrightarrow> step ?c VariationClicked =
      ?c\<lparr>app := ?s\<lparr>error := Some ''Original product photo not found. Please ensure it is still loaded in Step 1.''\<rparr>\<rparr>"
    using assms(1,2) by (simp add: b variationDisabled_def startCall_def)
  with b show ?thesis by blast
qed

text \<open>The sample session, after which a second read of the photo has failed.\<close>

theorem generateBannerVariation_photo_missing_witness:
  "step3Rendered (app (run initialSession toPhotoLost))
   \<and> truthy (bannerVariationPrompt (app (run initialSession toPhotoLost)))
   \<and> \<not> present (productPhoto (app (run initialSession toPhotoLost)))
   \<and> generateBannerVariation_begin (app (run initialSession toPhotoLost)) =
       (photoLostState
          \<lparr>error := Some ''Original product photo not found. Please ensure it is still loaded in Step 1.''\<rparr>,
        [])"
  using generateBannerVariation_photo_missing [of toPhotoLost]
  by (simp add: sample_states sample_defs page_defs)

subsection \<open>A new request for angles resets what came after\<close>


subsection \<open>The busy flag\<close>

text \<open>
  Claim C9 says that the busy flag is set before a request is sent and cleared on every exit,
  and that while it is set every button that starts an operation is disabled, so that one
  operation at most is in flight. The first half holds (\<open>busy_flag_set_then_released\<close>
  above). The second does not: the buttons of steps 1 and 2 are disabled by
  \<^verbatim>\<open>isLoading && currentStep === N\<close>, not by \<^verbatim>\<open>isLoading\<close> as the button of
  step 4 is. In the sample session with an angle chosen, at step 2: the campaign is requested,
  the flag is set and one call is in flight; the button of step 1 is clicked, and a campaign
  call and an angles call are in flight together. From the same state the button of step 1 is clicked
  twice, and two angles calls are in flight together.
\<close>

theorem two_operations_in_flight:
  "isLoading (app (run initialSession (toAngleSelected @ [GenerateClicked])))
   \<and> currentStep (app (run initialSession (toAngleSelected @ [GenerateClicked]))) = 2
   \<and> inFlight (run initialSession (toAngleSelected @ [GenerateClicked]))
       = [CampaignCall (Some samplePhoto)]
   \<and> inFlight (run initialSession (toAngleSelected @ [GenerateClicked, SuggestClicked]))
       = [CampaignCall (Some samplePhoto), AnglesCall]
   \<and> length (sent (run initialSession (toAngleSelected @ [GenerateClicked, SuggestClicked])))
       = 8
   \<and> isLoading (app (run initialSession (toAngleSelected @ [SuggestClicked])))
   \<and> inFlight (run initialSession (toAngleSelected @ [SuggestClicked])) = [AnglesCall]
   \<and> inFlight (run initialSession (toAngleSelected @ [SuggestClicked, SuggestClicked]))
       = [AnglesCall, AnglesCall]"
  by code_simp

subsection \<open>The banner in the asset collection\<close>

text \<open>
  Claim C10. In every session, the asset collection is empty, and then the lookup of the
  original banner by the words \<^verbatim>\<open>Web Banner\<close> in the title finds nothing, or it has
  exactly three entries, and then the lookup finds the third, which is the only entry whose
  title contains these words.
\<close>

theorem banner_lookup_in_every_session:
  "(campaignAssets (app (run initialSession events)) = []
      \<and> originalBanner (app (run initialSession events)) = None)
   \<or> (length (campaignAssets (app (run initialSession events))) = 3
      \<and> originalBanner (app (run initialSession events))
          = Some (campaignAssets (app (run initialSession events)) ! 2)
      \<and> filter isWebBanner (campaignAssets (app (run initialSession events)))
          = [campaignAssets (app (run initialSession events)) ! 2])"
  unfolding originalBanner_def by (rule shaped_banner [OF shaped_reachable])

text \<open>At the end of the sample session the lookup finds the banner of the sample.\<close>

theorem banner_lookup_in_every_session_witness:
  "campaignAssets (app (run initialSession toAssetsReady)) \<noteq> []
   \<and> originalBanner (app (run initialSession toAssetsReady)) = Some (sampleAssets ! 2)
   \<and> filter isWebBanner (campaignAssets (app (run initialSession toAssetsReady)))
       = [sampleAssets ! 2]"
  using banner_lookup_in_every_session [of toAssetsReady]
  by (simp add: sample_states assetsReadyState_def angleSelectedState_def sampleAssets_def)

end
